theory Spec2Isabelle
  imports Complex_Main
begin

section \<open>Arrays and numpy operations used by \<^verbatim>\<open>elastica/interaction.py\<close>\<close>

text \<open>
  The module computes with numpy arrays of doubles. Doubles are embedded as \<^typ>\<open>real\<close>
  (exact arithmetic, no rounding, no infinities); the one place where the source can
  produce a NaN (\<^verbatim>\<open>np.sqrt\<close> of a negative number) is modelled with an option.
  An array of shape \<^verbatim>\<open>(n,)\<close> or \<^verbatim>\<open>(1, n)\<close> is a list of reals, an array of shape
  \<^verbatim>\<open>(3, n)\<close> is the list of its \<open>n\<close> columns. Python exceptions are values of type
  \<open>error\<close>; a function that can raise returns \<open>error + 'a\<close>.
\<close>

datatype error = TypeError | IndexError | ValueError

type_synonym vec3 = "real \<times> real \<times> real"

definition vzero :: vec3 where
  "vzero = (0, 0, 0)"

fun vadd :: "vec3 \<Rightarrow> vec3 \<Rightarrow> vec3" where
  "vadd (a1, a2, a3) (b1, b2, b3) = (a1 + b1, a2 + b2, a3 + b3)"

fun vsub :: "vec3 \<Rightarrow> vec3 \<Rightarrow> vec3" where
  "vsub (a1, a2, a3) (b1, b2, b3) = (a1 - b1, a2 - b2, a3 - b3)"

fun vneg :: "vec3 \<Rightarrow> vec3" where
  "vneg (a1, a2, a3) = (- a1, - a2, - a3)"

fun smul :: "real \<Rightarrow> vec3 \<Rightarrow> vec3" where
  "smul c (a1, a2, a3) = (c * a1, c * a2, c * a3)"

fun vdot :: "vec3 \<Rightarrow> vec3 \<Rightarrow> real" where
  "vdot (a1, a2, a3) (b1, b2, b3) = a1 * b1 + a2 * b2 + a3 * b3"

text \<open>
  \<^verbatim>\<open>np.where(c)\<close> returns a tuple with one index array per axis of \<open>c\<close>: for a
  condition of shape \<^verbatim>\<open>(n,)\<close> the tuple \<^verbatim>\<open>(cols,)\<close>, for shape \<^verbatim>\<open>(1, n)\<close> the tuple
  \<^verbatim>\<open>(rows, cols)\<close> whose \<open>rows\<close> are all 0. The tuple is a list of index arrays.
\<close>

definition np_where :: "nat \<Rightarrow> bool list \<Rightarrow> nat list list" where
  "np_where ndim c =
     (let cols = filter (\<lambda>j. c ! j) [0..<length c]
      in if ndim = 1 then [cols] else [map (\<lambda>_. 0) cols, cols])"

text \<open>
  Indexing a tuple, a list or a one-dimensional array with a non-negative index:
  \<^verbatim>\<open>t[i]\<close> raises IndexError when \<open>i\<close> is not below the length.
\<close>

definition getitem :: "'a list \<Rightarrow> nat \<Rightarrow> error + 'a" where
  "getitem t i = (if i < length t then Inr (t ! i) else Inl IndexError)"

text \<open>
  An assignment through an index array stores element by element, row by row of the
  index array (the order in which numpy's implementation walks it); when an index
  occurs twice the later store remains.
\<close>

fun put :: "'a list \<Rightarrow> (nat \<times> 'a) list \<Rightarrow> 'a list" where
  "put a [] = a"
| "put a ((i, v) # ps) = put (a[i := v]) ps"

text \<open>
  The value of an assignment \<^verbatim>\<open>a[0, idx] = v\<close> with \<open>idx\<close> of shape \<^verbatim>\<open>(2, m)\<close> and \<open>v\<close> of
  shape \<^verbatim>\<open>(1, n)\<close> is broadcast to shape \<^verbatim>\<open>(2, m)\<close>: this needs \<open>n = m\<close> or \<open>n = 1\<close>, and
  numpy raises ValueError otherwise. The result is one row of length \<open>m\<close>, used for both
  rows of the index array.
\<close>

definition broadcast_row :: "real list \<Rightarrow> nat \<Rightarrow> error + real list" where
  "broadcast_row v m =
     (if length v = m then Inr v
      else if length v = 1 then Inr (replicate m (v ! 0))
      else Inl ValueError)"

section \<open>The slip-velocity interpolator\<close>

text \<open>
  \<^verbatim>\<open>linear_interpolation_slip(velocity_slip, velocity_threshold)\<close>, lines 9 to 17. The
  argument has shape \<^verbatim>\<open>(1, n)\<close> (the function reads \<^verbatim>\<open>velocity_slip.shape[1]\<close>) and is
  given by its row. \<^verbatim>\<open>slip_points\<close> is the pair \<^verbatim>\<open>(rows, cols)\<close>; used as the second
  index in \<^verbatim>\<open>slip_function[0, slip_points]\<close> it is one index array of shape \<^verbatim>\<open>(2, m)\<close>.
  The right-hand side is the formula over the whole input, not restricted to the
  slip points, so the assignment only succeeds when it can be broadcast.
\<close>

definition linear_interpolation_slip :: "real list \<Rightarrow> real \<Rightarrow> error + real list" where
  "linear_interpolation_slip velocity_slip velocity_threshold =
     (let abs_velocity_slip = map abs velocity_slip;
          slip_function = replicate (length velocity_slip) 1;
          slip_points = np_where 2 (map (\<lambda>a. abs a > velocity_threshold) abs_velocity_slip);
          rhs = map (\<lambda>a. abs (1 - min 1 (a / velocity_threshold - 1))) abs_velocity_slip
      in case broadcast_row rhs (length (slip_points ! 1)) of
           Inl e \<Rightarrow> Inl e
         | Inr b \<Rightarrow> Inr (put (put slip_function (zip (slip_points ! 0) b))
                              (zip (slip_points ! 1) b)))"

text \<open>
  The piecewise formula as section 4.1 of the specification words it: the interpolation
  at or below the threshold, 1 above it.
\<close>

definition spec_regularization_factor :: "real \<Rightarrow> real \<Rightarrow> real" where
  "spec_regularization_factor slip_velocity v_tol =
     (if abs slip_velocity \<le> v_tol then abs (1 - min 1 (abs slip_velocity / v_tol - 1))
      else 1)"

section \<open>Rods and planes\<close>

text \<open>
  The rod is the object the methods receive: \<open>n + 1\<close> nodes with positions, velocities
  and two force accumulators (arrays of shape \<^verbatim>\<open>(3, n + 1)\<close>), and \<open>n\<close> elements with
  radii \<^verbatim>\<open>r\<close> (shape \<^verbatim>\<open>(n,)\<close>) and tangents (shape \<^verbatim>\<open>(3, n)\<close>). The methods mutate
  \<^verbatim>\<open>rod.external_forces\<close> in place; the embedding returns the updated rod.
\<close>

record rod =
  position :: "vec3 list"
  velocity :: "vec3 list"
  internal_forces :: "vec3 list"
  external_forces :: "vec3 list"
  r :: "real list"
  tangents :: "vec3 list"

text \<open>
  On arrays whose shapes do not fit together numpy raises ValueError in the first
  arithmetic operation that combines them (all of them precede the first store into the
  rod). The embedding covers arrays of the shapes above and raises ValueError, before
  anything else, for any other lengths; arrays with an axis of length 1 that numpy
  would broadcast are outside it.
\<close>

definition shapes_agree :: "rod \<Rightarrow> bool" where
  "shapes_agree rod \<longleftrightarrow>
     length (velocity rod) = length (position rod) \<and>
     length (internal_forces rod) = length (position rod) \<and>
     length (external_forces rod) = length (position rod) \<and>
     length (r rod) = length (position rod) - 1"

text \<open>
  The plane normal is a numpy array of three numbers. Its shape decides the shape of
  every product \<^verbatim>\<open>self.normal_plane @ m\<close> with \<open>m\<close> of shape \<^verbatim>\<open>(3, n)\<close>: shape \<^verbatim>\<open>(3,)\<close>
  gives a result of shape \<^verbatim>\<open>(n,)\<close>, shape \<^verbatim>\<open>(1, 3)\<close> a result of shape \<^verbatim>\<open>(1, n)\<close>. The
  origin is an array of shape \<^verbatim>\<open>(3, 1)\<close>, subtracted from every column.
\<close>

datatype normal_array = Shape_3 vec3 | Shape_1_3 vec3

fun components :: "normal_array \<Rightarrow> vec3" where
  "components (Shape_3 v) = v"
| "components (Shape_1_3 v) = v"

fun ndim :: "normal_array \<Rightarrow> nat" where
  "ndim (Shape_3 v) = 1"
| "ndim (Shape_1_3 v) = 2"

record InteractionPlane =
  k :: real
  nu :: real
  origin_plane :: vec3
  normal_plane :: normal_array
  surface_tol :: real

record AnistropicFrictionalPlane = InteractionPlane +
  slip_velocity_tol :: real
  static_mu_forward :: real
  static_mu_backward :: real
  static_mu_sideways :: real
  kinetic_mu_forward :: real
  kinetic_mu_backward :: real
  kinetic_mu_sideways :: real

text \<open>Sequencing of computations that can raise: the first exception ends the call.\<close>

definition then_do :: "error + 'a \<Rightarrow> ('a \<Rightarrow> error + 'b) \<Rightarrow> error + 'b" where
  "then_do m f = (case m of Inl e \<Rightarrow> Inl e | Inr x \<Rightarrow> f x)"

text \<open>\<^verbatim>\<open>InteractionPlane.__init__(self, k, nu, origin_plane, normal_plane)\<close>, lines 23 to 28.\<close>

definition InteractionPlane_init ::
  "real \<Rightarrow> real \<Rightarrow> vec3 \<Rightarrow> normal_array \<Rightarrow> InteractionPlane" where
  "InteractionPlane_init k' nu' origin_plane' normal_plane' =
     \<lparr>k = k', nu = nu', origin_plane = origin_plane', normal_plane = normal_plane',
      surface_tol = 1 / 10000\<rparr>"

text \<open>
  \<^verbatim>\<open>AnistropicFrictionalPlane.__init__\<close>, lines 59 to 68: the base constructor, then the
  tolerance and the six coefficients, read from the two arrays by index (IndexError
  when an array is shorter than three).
\<close>

definition AnistropicFrictionalPlane_init ::
  "real \<Rightarrow> real \<Rightarrow> vec3 \<Rightarrow> normal_array \<Rightarrow> real \<Rightarrow> real list \<Rightarrow> real list
     \<Rightarrow> error + AnistropicFrictionalPlane" where
  "AnistropicFrictionalPlane_init k' nu' origin_plane' normal_plane' slip_velocity_tol'
       static_mu_array kinetic_mu_array =
     (let self = InteractionPlane_init k' nu' origin_plane' normal_plane' in
      then_do (getitem static_mu_array 0) (\<lambda>sf.
      then_do (getitem static_mu_array 1) (\<lambda>sb.
      then_do (getitem static_mu_array 2) (\<lambda>ss.
      then_do (getitem kinetic_mu_array 0) (\<lambda>kf.
      then_do (getitem kinetic_mu_array 1) (\<lambda>kb.
      then_do (getitem kinetic_mu_array 2) (\<lambda>ks.
        Inr (InteractionPlane.extend self
               (AnistropicFrictionalPlane.fields slip_velocity_tol' sf sb ss kf kb ks)))))))))"

section \<open>Normal contact\<close>

text \<open>
  The expression \<^verbatim>\<open>0.5 * (a[..., :-1] + a[..., 1:])\<close> of lines 31, 35, 43 and 77: the
  average of the two nodes of each element.
\<close>

definition node_to_element :: "vec3 list \<Rightarrow> vec3 list" where
  "node_to_element a = map (smul (1 / 2)) (map2 vadd (butlast a) (tl a))"

text \<open>\<^verbatim>\<open>normal @ m\<close> and \<^verbatim>\<open>np.outer(normal, s)\<close>, by columns.\<close>

definition matmul :: "normal_array \<Rightarrow> vec3 list \<Rightarrow> real list" where
  "matmul normal m = map (vdot (components normal)) m"

fun outer_column :: "vec3 \<Rightarrow> real \<Rightarrow> vec3" where
  "outer_column (a1, a2, a3) s = (a1 * s, a2 * s, a3 * s)"

definition np_outer :: "normal_array \<Rightarrow> real list \<Rightarrow> vec3 list" where
  "np_outer normal s = map (outer_column (components normal)) s"

text \<open>
  \<^verbatim>\<open>a[..., idx] = 0\<close> for an index array \<open>idx\<close>: every listed column becomes zero. On line 38
  the index is the whole tuple that \<^verbatim>\<open>np.where\<close> returned, which numpy reads as one
  two-dimensional index array, so all its rows are used.
\<close>

definition zero_columns :: "vec3 list \<Rightarrow> nat list \<Rightarrow> vec3 list" where
  "zero_columns a idx = put a (map (\<lambda>j. (j, vzero)) idx)"

text \<open>\<^verbatim>\<open>a[..., :-1] += x\<close> and \<^verbatim>\<open>a[..., 1:] += x\<close> for \<open>x\<close> with one column less than \<open>a\<close>.\<close>

definition add_to_front :: "vec3 list \<Rightarrow> vec3 list \<Rightarrow> vec3 list" where
  "add_to_front a x = map2 vadd (butlast a) x @ drop (length a - 1) a"

definition add_to_back :: "vec3 list \<Rightarrow> vec3 list \<Rightarrow> vec3 list" where
  "add_to_back a x = take 1 a @ map2 vadd (tl a) x"

text \<open>Lines 31 to 33.\<close>

definition distance_from_plane :: "'a InteractionPlane_scheme \<Rightarrow> rod \<Rightarrow> real list" where
  "distance_from_plane self rod =
     (let element_x = node_to_element (position rod)
      in matmul (normal_plane self) (map (\<lambda>x. vsub x (origin_plane self)) element_x))"

definition no_contact_pts :: "'a InteractionPlane_scheme \<Rightarrow> rod \<Rightarrow> nat list list" where
  "no_contact_pts self rod =
     np_where (ndim (normal_plane self))
       (map (\<lambda>d. d > surface_tol self) (distance_from_plane self rod))"

text \<open>Lines 34 to 38.\<close>

definition forces_normal_direction :: "'a InteractionPlane_scheme \<Rightarrow> rod \<Rightarrow> real list" where
  "forces_normal_direction self rod =
     (let nodal_total_forces = map2 vadd (internal_forces rod) (external_forces rod);
          total_forces = node_to_element nodal_total_forces
      in matmul (normal_plane self) total_forces)"

definition forces_normal :: "'a InteractionPlane_scheme \<Rightarrow> rod \<Rightarrow> vec3 list" where
  "forces_normal self rod =
     zero_columns (np_outer (normal_plane self) (forces_normal_direction self rod))
       (concat (np_where (ndim (normal_plane self))
                  (map (\<lambda>f. f > 0) (forces_normal_direction self rod))))"

text \<open>Lines 39 to 45.\<close>

definition plane_penetration :: "'a InteractionPlane_scheme \<Rightarrow> rod \<Rightarrow> real list" where
  "plane_penetration self rod =
     map2 (\<lambda>d radius. min (d - radius) 0) (distance_from_plane self rod) (r rod)"

definition elastic_force :: "'a InteractionPlane_scheme \<Rightarrow> rod \<Rightarrow> vec3 list" where
  "elastic_force self rod =
     map (smul (- k self)) (np_outer (normal_plane self) (plane_penetration self rod))"

definition damping_force :: "'a InteractionPlane_scheme \<Rightarrow> rod \<Rightarrow> vec3 list" where
  "damping_force self rod =
     (let element_v = node_to_element (velocity rod);
          normal_v = matmul (normal_plane self) element_v
      in map (smul (- nu self)) (np_outer (normal_plane self) normal_v))"

text \<open>
  Lines 46 and 47. \<^verbatim>\<open>no_contact_pts[1]\<close> reads the second member of the tuple that
  \<^verbatim>\<open>np.where\<close> returned on line 33; for a normal of shape \<^verbatim>\<open>(3,)\<close> the tuple has one
  member and the read raises IndexError.
\<close>

definition normal_force_plane :: "'a InteractionPlane_scheme \<Rightarrow> rod \<Rightarrow> error + vec3 list" where
  "normal_force_plane self rod =
     then_do (getitem (no_contact_pts self rod) 1) (\<lambda>cols.
       Inr (zero_columns (map vneg (forces_normal self rod)) cols))"

text \<open>Line 48, for the value that \<^verbatim>\<open>normal_force_plane\<close> has after line 47.\<close>

definition total_force_plane ::
  "'a InteractionPlane_scheme \<Rightarrow> rod \<Rightarrow> vec3 list \<Rightarrow> vec3 list" where
  "total_force_plane self rod normal_force =
     map2 vadd (map2 vadd normal_force (elastic_force self rod)) (damping_force self rod)"

text \<open>
  \<^verbatim>\<open>InteractionPlane.apply_normal_force(self, rod)\<close>, lines 30 to 51: the returned array
  together with the rod after the two stores of lines 49 and 50.
\<close>

definition apply_normal_force ::
  "'a InteractionPlane_scheme \<Rightarrow> rod \<Rightarrow> error + vec3 list \<times> rod" where
  "apply_normal_force self rod =
     (if \<not> shapes_agree rod then Inl ValueError
      else then_do (normal_force_plane self rod) (\<lambda>normal_force.
        let half = map (smul (1 / 2)) (total_force_plane self rod normal_force)
        in Inr (normal_force,
                rod\<lparr>external_forces :=
                      add_to_back (add_to_front (external_forces rod) half) half\<rparr>)))"

section \<open>Kinetic friction\<close>

text \<open>
  Calling \<^verbatim>\<open>obj.m(a, b)\<close> on an instance passes the instance as first argument in
  addition to the written ones; Python raises TypeError when the number of arguments
  passed differs from the number of parameters of \<^verbatim>\<open>m\<close>.
\<close>

definition bound_method_call :: "nat \<Rightarrow> nat \<Rightarrow> error + 'a \<Rightarrow> error + 'a" where
  "bound_method_call parameters written_arguments result =
     (if Suc written_arguments = parameters then result else Inl TypeError)"

text \<open>
  \<^verbatim>\<open>np.einsum('ijk,ijk->jk', a, b)\<close> sums the products over the first axis. Its
  subscripts name three axes, and numpy raises ValueError for operands with another
  number of axes; the rod's arrays have two.
\<close>

definition np_einsum_ijk_ijk_jk :: "nat \<Rightarrow> vec3 list \<Rightarrow> vec3 list \<Rightarrow> error + real list" where
  "np_einsum_ijk_ijk_jk operand_ndim a b =
     (if operand_ndim = 3 then Inr (map2 vdot a b) else Inl ValueError)"

text \<open>\<^verbatim>\<open>np.sqrt\<close> and \<^verbatim>\<open>np.sign\<close>; \<open>None\<close> is NaN, which numpy returns without raising.\<close>

definition np_sqrt :: "real \<Rightarrow> real option" where
  "np_sqrt x = (if x < 0 then None else Some (sqrt x))"

definition np_sign :: "real option \<Rightarrow> real option" where
  "np_sign x = map_option sgn x"

text \<open>Lines 80 and 81, for operands with the given number of axes.\<close>

definition axial_slip_velocity ::
  "nat \<Rightarrow> vec3 list \<Rightarrow> vec3 list \<Rightarrow> error + real option list" where
  "axial_slip_velocity operand_ndim element_v axial_direction =
     then_do (np_einsum_ijk_ijk_jk operand_ndim element_v axial_direction) (\<lambda>dots.
       Inr (map np_sqrt dots))"

definition axial_slip_velocity_sign :: "real option list \<Rightarrow> real option list" where
  "axial_slip_velocity_sign slip = map np_sign slip"

text \<open>Lines 82 and 83.\<close>

definition kinetic_mu ::
  "'a AnistropicFrictionalPlane_scheme \<Rightarrow> real option list \<Rightarrow> real option list" where
  "kinetic_mu self sign =
     map (map_option (\<lambda>s. (1 / 2) * (kinetic_mu_forward self * (1 - s)
                                      + kinetic_mu_backward self * (1 + s)))) sign"

text \<open>
  Line 84 binds \<^verbatim>\<open>slip_function\<close> to a tuple (no function is applied to the pair), and
  line 85 subtracts it from a float, which raises TypeError.
\<close>

definition float_minus_tuple :: "real \<Rightarrow> 'a \<times> 'b \<Rightarrow> error + 'c" where
  "float_minus_tuple x t = Inl TypeError"

text \<open>
  \<^verbatim>\<open>AnistropicFrictionalPlane.apply_kinetic_friction(self, rod)\<close>, lines 71 to 89. Line 73
  calls the bound method \<^verbatim>\<open>self.apply_normal_force\<close>, which has the two parameters
  \<^verbatim>\<open>(self, rod)\<close>, with the two written arguments \<^verbatim>\<open>(self, rod)\<close>. Lines 74 to 76 only
  bind names. The statements after line 85 are reached on no path and are not part of
  the embedding.
\<close>

definition apply_kinetic_friction ::
  "'a AnistropicFrictionalPlane_scheme \<Rightarrow> rod \<Rightarrow> error + rod" where
  "apply_kinetic_friction self rod =
     then_do (bound_method_call 2 2 (apply_normal_force self rod)) (\<lambda>(normal_force, rod').
     then_do (axial_slip_velocity 2 (node_to_element (velocity rod')) (tangents rod')) (\<lambda>slip.
       let sign = axial_slip_velocity_sign slip;
           mu = kinetic_mu self sign;
           slip_function = (slip, slip_velocity_tol self)
       in float_minus_tuple 1 slip_function))"

section \<open>Example inputs\<close>

text \<open>
  Planes through the origin with normal \<open>(0, 1, 0)\<close> of shape \<^verbatim>\<open>(1, 3)\<close>: one with
  stiffness 1 and no damping, one with damping 1 and no stiffness.
\<close>

definition stiff_plane :: InteractionPlane where
  "stiff_plane = InteractionPlane_init 1 0 (0, 0, 0) (Shape_1_3 (0, 1, 0))"

definition damping_plane :: InteractionPlane where
  "damping_plane = InteractionPlane_init 0 1 (0, 0, 0) (Shape_1_3 (0, 1, 0))"

text \<open>
  A rod of two elements of radius 1/2 lying in the plane at rest; its internal forces
  push the first element away from the plane and the second one into it.
\<close>

definition lying_rod :: rod where
  "lying_rod =
     \<lparr>position = [(0, 0, 0), (1, 0, 0), (2, 0, 0)],
      velocity = [(0, 0, 0), (0, 0, 0), (0, 0, 0)],
      internal_forces = [(0, 4, 0), (0, - 2, 0), (0, - 2, 0)],
      external_forces = [(0, 0, 0), (0, 0, 0), (0, 0, 0)],
      r = [1 / 2, 1 / 2],
      tangents = [(1, 0, 0), (1, 0, 0)]\<rparr>"

text \<open>A force-free rod of one element of radius 1/2 at height 1, moving up with speed 1.\<close>

definition rising_rod :: rod where
  "rising_rod =
     \<lparr>position = [(0, 1, 0), (1, 1, 0)],
      velocity = [(0, 1, 0), (0, 1, 0)],
      internal_forces = [(0, 0, 0), (0, 0, 0)],
      external_forces = [(0, 0, 0), (0, 0, 0)],
      r = [1 / 2],
      tangents = [(1, 0, 0)]\<rparr>"

text \<open>A force-free rod of one element of radius 1/2 with its axis in the plane, at rest.\<close>

definition resting_rod :: rod where
  "resting_rod =
     \<lparr>position = [(0, 0, 0), (1, 0, 0)],
      velocity = [(0, 0, 0), (0, 0, 0)],
      internal_forces = [(0, 0, 0), (0, 0, 0)],
      external_forces = [(0, 0, 0), (0, 0, 0)],
      r = [1 / 2],
      tangents = [(1, 0, 0)]\<rparr>"

text \<open>
  A frictional plane with slip-velocity tolerance 1/4, kinetic forward coefficient 1/2
  and all other coefficients 1.
\<close>

definition friction_plane :: AnistropicFrictionalPlane where
  "friction_plane =
     \<lparr>k = 1, nu = 0, origin_plane = (0, 0, 0), normal_plane = Shape_1_3 (0, 1, 0),
      surface_tol = 1 / 10000, slip_velocity_tol = 1 / 4,
      static_mu_forward = 1, static_mu_backward = 1, static_mu_sideways = 1,
      kinetic_mu_forward = 1 / 2, kinetic_mu_backward = 1, kinetic_mu_sideways = 1\<rparr>"

text \<open>
  A force-free rod of one element of radius 1/2 with its axis in the plane, sliding
  against its tangent with speed 1/2.
\<close>

definition sliding_rod :: rod where
  "sliding_rod =
     \<lparr>position = [(0, 0, 0), (1, 0, 0)],
      velocity = [(- (1 / 2), 0, 0), (- (1 / 2), 0, 0)],
      internal_forces = [(0, 0, 0), (0, 0, 0)],
      external_forces = [(0, 0, 0), (0, 0, 0)],
      r = [1 / 2],
      tangents = [(1, 0, 0)]\<rparr>"

section \<open>Index assignment\<close>

lemma length_put: "length (put a ps) = length a"
  by (induction ps arbitrary: a) auto

lemma put_nth_other: "i \<notin> fst ` set ps \<Longrightarrow> put a ps ! i = a ! i"
  by (induction ps arbitrary: a) auto

lemma put_nth_stored:
  "distinct (map fst ps) \<Longrightarrow> (i, v) \<in> set ps \<Longrightarrow> i < length a \<Longrightarrow> put a ps ! i = v"
proof (induction ps arbitrary: a)
  case Nil
  then show ?case by simp
next
  case (Cons p ps)
  obtain j w where p: "p = (j, w)" by (cases p)
  show ?case
  proof (cases "(i, v) = (j, w)")
    case True
    with Cons.prems p have "i \<notin> fst ` set ps" by auto
    then have "put (a[j := w]) ps ! i = (a[j := w]) ! i" by (rule put_nth_other)
    with True Cons.prems p show ?thesis by simp
  next
    case False
    with Cons.prems p have "(i, v) \<in> set ps" "distinct (map fst ps)" by auto
    then have "put (a[j := w]) ps ! i = v" using Cons.prems(3) by (intro Cons.IH) auto
    with p show ?thesis by simp
  qed
qed

lemma filter_upt_full:
  "length (filter P [0..<n]) = n \<Longrightarrow> filter P [0..<n] = [0..<n]"
  by (metis diff_zero filter_True length_filter_less length_upt less_irrefl )

lemma np_where_2: "np_where 2 c ! 1 = filter (\<lambda>j. c ! j) [0..<length c]"
  "np_where 2 c ! 0 = map (\<lambda>_. 0) (filter (\<lambda>j. c ! j) [0..<length c])"
  by (simp_all add: np_where_def Let_def)

section \<open>Properties of the slip-velocity interpolator\<close>

lemma linear_interpolation_slip_nth:
  assumes ret: "linear_interpolation_slip velocity_slip velocity_threshold = Inr slip_function"
  shows "length slip_function = length velocity_slip"
    and "j < length velocity_slip \<Longrightarrow>
         slip_function ! j =
           (if abs (velocity_slip ! j) > velocity_threshold
            then abs (1 - min 1 (abs (velocity_slip ! j) / velocity_threshold - 1))
            else 1)"
proof -
  define n where "n = length velocity_slip"
  define c where "c = map (\<lambda>a. abs a > velocity_threshold) (map abs velocity_slip)"
  define cols where "cols = filter (\<lambda>j. c ! j) [0..<length c]"
  define rhs where
    "rhs = map (\<lambda>a. abs (1 - min 1 (a / velocity_threshold - 1))) (map abs velocity_slip)"
  have lc: "length c = n" and lr: "length rhs = n"
    by (simp_all add: c_def rhs_def n_def)
  have unfolded: "(case broadcast_row rhs (length cols) of
            Inl e \<Rightarrow> Inl e
          | Inr b \<Rightarrow> Inr (put (put (replicate n 1) (zip (map (\<lambda>_. 0) cols) b)) (zip cols b)))
        = Inr slip_function"
    using ret
    unfolding linear_interpolation_slip_def Let_def np_where_2 c_def cols_def rhs_def n_def .
  then obtain b where b: "broadcast_row rhs (length cols) = Inr b"
    and sf: "slip_function = put (put (replicate n 1) (zip (map (\<lambda>_. 0) cols) b)) (zip cols b)"
    by (auto split: sum.splits)
  show len: "length slip_function = length velocity_slip"
    by (simp add: sf length_put n_def)
  have cases: "(length cols = n \<and> b = rhs) \<or> (n = 1 \<and> length cols = 0 \<and> b = [])"
  proof -
    have "length cols \<le> n" unfolding cols_def lc[symmetric]
      by (metis diff_zero length_filter_le length_upt)
    with b lr show ?thesis
      by (auto simp: broadcast_row_def le_Suc_eq split: if_splits)
  qed
  show "slip_function ! j =
           (if abs (velocity_slip ! j) > velocity_threshold
            then abs (1 - min 1 (abs (velocity_slip ! j) / velocity_threshold - 1))
            else 1)" if j: "j < length velocity_slip"
  proof -
    from cases show ?thesis
    proof
      assume full: "length cols = n \<and> b = rhs"
      then have cols: "cols = [0..<n]"
        using filter_upt_full[of "\<lambda>j. c ! j" n] by (simp add: cols_def lc)
      have "c ! j" 
      proof -
        have "j \<in> set cols" using j cols n_def by simp
        then show ?thesis by (simp add: cols_def)
      qed
      then have slip: "abs (velocity_slip ! j) > velocity_threshold"
        using j by (simp add: c_def)
      have "(j, rhs ! j) \<in> set (zip cols b)"
        using full cols j lr n_def by (auto simp: set_zip intro!: exI[of _ j])
      moreover have "distinct (map fst (zip cols b))"
        using full cols lr by (simp add: map_fst_zip)
      ultimately have "slip_function ! j = rhs ! j"
        unfolding sf using j n_def by (intro put_nth_stored) (simp_all add: length_put)
      with slip j show ?thesis by (simp add: rhs_def)
    next
      assume single: "n = 1 \<and> length cols = 0 \<and> b = []"
      then have j0: "j = 0" using j n_def by simp
      have "0 \<in> set cols \<longleftrightarrow> c ! 0" using single lc by (simp add: cols_def)
      with single have "\<not> c ! 0" by simp
      then have "\<not> abs (velocity_slip ! 0) > velocity_threshold"
        using single n_def by (simp add: c_def)
      moreover have "slip_function = [1]" using single by (simp add: sf)
      ultimately show ?thesis using j0 by simp
    qed
  qed
qed

lemma length_filter_full: "length (filter P xs) = length xs \<longleftrightarrow> (\<forall>x \<in> set xs. P x)"
proof
  assume full: "length (filter P xs) = length xs"
  show "\<forall>x \<in> set xs. P x"
  proof
    fix x assume "x \<in> set xs"
    then show "P x" using full length_filter_less[of x xs P] by auto
  qed
next
  assume "\<forall>x \<in> set xs. P x"
  then show "length (filter P xs) = length xs" by simp
qed

lemma filter_upt_all: "length (filter (\<lambda>j. c ! j) [0..<length c]) = length c \<longleftrightarrow> (\<forall>x \<in> set c. x)"
  using length_filter_full[of "\<lambda>j. c ! j" "[0..<length c]"]
  by (auto simp: all_set_conv_all_nth)

lemma linear_interpolation_slip_returns:
  "(\<exists>slip_function. linear_interpolation_slip velocity_slip velocity_threshold = Inr slip_function)
   \<longleftrightarrow> (\<forall>v \<in> set velocity_slip. abs v > velocity_threshold) \<or> length velocity_slip = 1"
proof -
  define c where "c = map (\<lambda>a. abs a > velocity_threshold) (map abs velocity_slip)"
  have "(\<exists>slip_function. linear_interpolation_slip velocity_slip velocity_threshold = Inr slip_function)
     \<longleftrightarrow> length (filter (\<lambda>j. c ! j) [0..<length c]) = length c \<or> length velocity_slip = 1"
    unfolding linear_interpolation_slip_def Let_def np_where_2 c_def
    by (auto simp: broadcast_row_def)
  also have "length (filter (\<lambda>j. c ! j) [0..<length c]) = length c \<longleftrightarrow> (\<forall>x \<in> set c. x)"
    by (rule filter_upt_all)
  also have "(\<forall>x \<in> set c. x) \<longleftrightarrow> (\<forall>v \<in> set velocity_slip. abs v > velocity_threshold)"
    by (auto simp: c_def)
  finally show ?thesis .
qed

text \<open>
  Claim C1, as amended. For a positive threshold, whenever the interpolator returns,
  the result has one factor per input element: the interpolation
  \<open>|1 - min 1 (|v| / threshold - 1)|\<close> for an element with \<open>|v| > threshold\<close>, and exactly
  1 for an element with \<open>|v| \<le> threshold\<close>. (The claim had the two cases exchanged.)
\<close>

theorem linear_interpolation_slip_piecewise:
  assumes "0 < velocity_threshold"
    and "linear_interpolation_slip velocity_slip velocity_threshold = Inr slip_function"
  shows "length slip_function = length velocity_slip \<and>
    (\<forall>j < length velocity_slip. slip_function ! j =
        (if abs (velocity_slip ! j) > velocity_threshold
         then abs (1 - min 1 (abs (velocity_slip ! j) / velocity_threshold - 1))
         else 1))"
  using linear_interpolation_slip_nth[OF assms(2)] by blast

theorem linear_interpolation_slip_piecewise_witness:
  "(0::real) < 1 \<and> linear_interpolation_slip [2, 3 / 2] 1 = Inr [0, 1 / 2] \<and>
   length [0, 1 / 2 :: real] = length [2, 3 / 2 :: real] \<and>
   [0, 1 / 2 :: real] ! 0 = abs (1 - min 1 (abs 2 / 1 - 1)) \<and>
   [0, 1 / 2 :: real] ! 1 = abs (1 - min 1 (abs (3 / 2) / 1 - 1))"
proof -
  have h1: "(0::real) < 1" by simp
  have h2: "linear_interpolation_slip [2, 3 / 2] 1 = Inr [0, 1 / 2]"
    by (simp add: linear_interpolation_slip_def np_where_def broadcast_row_def Let_def
        upt_conv_Cons)
  show ?thesis
    using h1 h2 linear_interpolation_slip_piecewise[OF h1 h2] by simp
qed

text \<open>
  Claim C1, as stated, fails: at slip velocity 2 with threshold 1 the element is above
  the threshold, where the claim gives the factor 1, and the interpolator returns 0.
\<close>

theorem linear_interpolation_slip_above_threshold_counterexample:
  "linear_interpolation_slip [2] 1 = Inr [0] \<and> spec_regularization_factor 2 1 = 1"
  by (simp add: linear_interpolation_slip_def np_where_def broadcast_row_def Let_def
      spec_regularization_factor_def)

text \<open>
  Claim C7, as amended. For a positive threshold every factor the interpolator returns
  lies between 0 and 1; at a slip velocity equal to the threshold the factor is 1, as
  the piecewise formula of the specification gives; at slip velocity 0 the factor is 1.
\<close>

theorem linear_interpolation_slip_range:
  assumes pos: "0 < velocity_threshold"
    and ret: "linear_interpolation_slip velocity_slip velocity_threshold = Inr slip_function"
  shows "(\<forall>f \<in> set slip_function. 0 \<le> f \<and> f \<le> 1) \<and>
    linear_interpolation_slip [velocity_threshold] velocity_threshold = Inr [1] \<and>
    spec_regularization_factor velocity_threshold velocity_threshold = 1 \<and>
    linear_interpolation_slip [0] velocity_threshold = Inr [1]"
proof -
  have range: "0 \<le> f \<and> f \<le> 1" if "f \<in> set slip_function" for f
  proof -
    from that obtain j where j: "j < length slip_function" and f: "f = slip_function ! j"
      by (auto simp: in_set_conv_nth)
    from j have j': "j < length velocity_slip"
      by (simp add: linear_interpolation_slip_nth(1)[OF ret])
    show ?thesis
    proof (cases "abs (velocity_slip ! j) > velocity_threshold")
      case True
      with pos have "0 < abs (velocity_slip ! j) / velocity_threshold - 1" by simp
      then have "0 \<le> 1 - min 1 (abs (velocity_slip ! j) / velocity_threshold - 1)"
        and "1 - min 1 (abs (velocity_slip ! j) / velocity_threshold - 1) \<le> 1"
        by (simp_all add: min_def)
      then show ?thesis
        using True f linear_interpolation_slip_nth(2)[OF ret j'] by simp
    next
      case False
      then show ?thesis
        using f linear_interpolation_slip_nth(2)[OF ret j'] by simp
    qed
  qed
  moreover have "linear_interpolation_slip [velocity_threshold] velocity_threshold = Inr [1]"
    and "linear_interpolation_slip [0] velocity_threshold = Inr [1]"
    using pos
    by (simp_all add: linear_interpolation_slip_def np_where_def broadcast_row_def Let_def)
  moreover have "spec_regularization_factor velocity_threshold velocity_threshold = 1"
    using pos by (simp add: spec_regularization_factor_def)
  ultimately show ?thesis by simp
qed

theorem linear_interpolation_slip_range_witness:
  "(0::real) < 2 \<and> linear_interpolation_slip [3, 5] 2 = Inr [1 / 2, 0] \<and>
   (0::real) \<le> 1 / 2 \<and> (1 / 2 :: real) \<le> 1 \<and>
   linear_interpolation_slip [2] 2 = Inr [1] \<and>
   spec_regularization_factor 2 2 = 1 \<and>
   linear_interpolation_slip [0] 2 = Inr [1]"
proof -
  have h1: "(0::real) < 2" by simp
  have h2: "linear_interpolation_slip [3, 5] 2 = Inr [1 / 2, 0]"
    by (simp add: linear_interpolation_slip_def np_where_def broadcast_row_def Let_def
        upt_conv_Cons)
  show ?thesis
    using h1 h2 linear_interpolation_slip_range[OF h1 h2] by simp
qed

text \<open>
  Claim C7, as stated, fails at slip velocity 0: the piecewise formula of the
  specification gives 2 there, and the interpolator returns 1.
\<close>

theorem linear_interpolation_slip_at_zero_counterexample:
  "linear_interpolation_slip [0] 1 = Inr [1] \<and> spec_regularization_factor 0 1 = 2"
  by (simp add: linear_interpolation_slip_def np_where_def broadcast_row_def Let_def
      spec_regularization_factor_def)

section \<open>Properties of normal contact\<close>

subsection \<open>Vectors\<close>

lemma outer_column_smul: "outer_column v s = smul s v"
  by (cases v) (simp add: mult.commute)

lemma vzero_smul: "vzero = smul 0 v"
  by (cases v) (simp add: vzero_def)

lemma vneg_smul: "vneg (smul c v) = smul (- c) v"
  by (cases v) simp

lemma smul_smul: "smul a (smul b v) = smul (a * b) v"
  by (cases v) (simp add: mult.assoc)

lemma vadd_smul: "vadd (smul a v) (smul b v) = smul (a + b) v"
  by (cases v) (simp add: distrib_right)

lemma vadd_vzero: "vadd v vzero = v" "vadd vzero v = v"
  by (cases v; simp add: vzero_def)+

lemma vadd_halves: "vadd (smul (1 / 2) v) (smul (1 / 2) v) = v"
  by (cases v) simp

lemma vdot_self_nonneg: "0 \<le> vdot v v"
  by (cases v) simp

lemma vdot_smul: "vdot v (smul c v) = c * vdot v v"
  by (cases v) (simp add: algebra_simps)

lemma vdot_vzero: "vdot v vzero = 0"
  by (cases v) (simp add: vzero_def)

subsection \<open>Array helpers\<close>

lemma length_zero_columns: "length (zero_columns a idx) = length a"
  by (simp add: zero_columns_def length_put)

lemma put_const_nth:
  "j < length a \<Longrightarrow> put a (map (\<lambda>i. (i, z)) idx) ! j = (if j \<in> set idx then z else a ! j)"
proof (induction idx arbitrary: a)
  case Nil
  then show ?case by simp
next
  case (Cons i idx)
  then have "put (a[i := z]) (map (\<lambda>i. (i, z)) idx) ! j =
      (if j \<in> set idx then z else (a[i := z]) ! j)"
    by (intro Cons.IH) simp
  with Cons.prems show ?case by (auto simp: nth_list_update)
qed

lemma zero_columns_nth:
  "j < length a \<Longrightarrow> zero_columns a idx ! j = (if j \<in> set idx then vzero else a ! j)"
  by (simp add: zero_columns_def put_const_nth)

lemma length_node_to_element: "length (node_to_element a) = length a - 1"
  by (simp add: node_to_element_def)

lemma node_to_element_nth:
  "j < length a - 1 \<Longrightarrow> node_to_element a ! j = smul (1 / 2) (vadd (a ! j) (a ! Suc j))"
  by (simp add: node_to_element_def nth_butlast nth_tl)

lemma length_add_to_front:
  "length x = length a - 1 \<Longrightarrow> length (add_to_front a x) = length a"
  by (cases a) (auto simp: add_to_front_def)

lemma length_add_to_back:
  "length x = length a - 1 \<Longrightarrow> length (add_to_back a x) = length a"
  by (cases a) (auto simp: add_to_back_def)

lemma add_to_front_nth:
  assumes "length x = length a - 1" "j < length a"
  shows "add_to_front a x ! j = (if j < length x then vadd (a ! j) (x ! j) else a ! j)"
proof (cases "j < length x")
  case True
  with assms show ?thesis
    by (simp add: add_to_front_def nth_append nth_butlast)
next
  case False
  with assms have "j = length a - 1" by simp
  with assms False show ?thesis
    by (simp add: add_to_front_def nth_append)
qed

lemma add_to_back_nth:
  assumes "length x = length a - 1" "j < length a"
  shows "add_to_back a x ! j = (if 0 < j then vadd (a ! j) (x ! (j - 1)) else a ! j)"
proof (cases j)
  case 0
  with assms show ?thesis by (cases a) (simp_all add: add_to_back_def)
next
  case (Suc i)
  with assms show ?thesis
    by (cases a) (simp_all add: add_to_back_def nth_tl)
qed

lemma np_where_cols:
  "getitem (np_where nd c) 1 = Inr cols \<Longrightarrow>
     nd \<noteq> 1 \<and> cols = filter (\<lambda>j. c ! j) [0..<length c]"
  by (auto simp: np_where_def getitem_def Let_def split: if_splits)

lemma set_concat_np_where:
  "nd \<noteq> 1 \<Longrightarrow> set (concat (np_where nd c)) =
     (if \<exists>j<length c. c ! j then insert 0 {j. j < length c \<and> c ! j} else {})"
  by (auto simp: np_where_def Let_def filter_empty_conv)

subsection \<open>The intermediate arrays of apply_normal_force\<close>

lemma length_distance_from_plane:
  "length (distance_from_plane self rod) = length (position rod) - 1"
  by (simp add: distance_from_plane_def matmul_def length_node_to_element)

lemma length_forces_normal_direction:
  "shapes_agree rod \<Longrightarrow>
     length (forces_normal_direction self rod) = length (position rod) - 1"
  by (simp add: forces_normal_direction_def matmul_def length_node_to_element shapes_agree_def)

lemma length_forces_normal:
  "shapes_agree rod \<Longrightarrow> length (forces_normal self rod) = length (position rod) - 1"
  by (simp add: forces_normal_def length_zero_columns np_outer_def
      length_forces_normal_direction)

lemma length_plane_penetration:
  "shapes_agree rod \<Longrightarrow> length (plane_penetration self rod) = length (position rod) - 1"
  by (simp add: plane_penetration_def length_distance_from_plane shapes_agree_def)

lemma length_elastic_force:
  "shapes_agree rod \<Longrightarrow> length (elastic_force self rod) = length (position rod) - 1"
  by (simp add: elastic_force_def np_outer_def length_plane_penetration)

lemma length_damping_force:
  "shapes_agree rod \<Longrightarrow> length (damping_force self rod) = length (position rod) - 1"
  by (simp add: damping_force_def np_outer_def matmul_def length_node_to_element
      shapes_agree_def)

lemma elastic_force_nth:
  assumes "shapes_agree rod" "j < length (position rod) - 1"
  shows "elastic_force self rod ! j =
     smul (- k self * plane_penetration self rod ! j) (components (normal_plane self))"
  using assms
  by (simp add: elastic_force_def np_outer_def length_plane_penetration outer_column_smul
      smul_smul)

lemma damping_force_nth:
  assumes "shapes_agree rod" "j < length (position rod) - 1"
  shows "damping_force self rod ! j =
     smul (- nu self * vdot (components (normal_plane self))
                          (node_to_element (velocity rod) ! j))
          (components (normal_plane self))"
  using assms
  by (simp add: damping_force_def np_outer_def matmul_def length_node_to_element
      shapes_agree_def outer_column_smul smul_smul)

lemma forces_normal_nth:
  assumes "shapes_agree rod" "j < length (position rod) - 1" "ndim (normal_plane self) \<noteq> 1"
  shows "forces_normal self rod ! j =
     (if 0 < forces_normal_direction self rod ! j \<or>
         (j = 0 \<and> (\<exists>i < length (position rod) - 1. 0 < forces_normal_direction self rod ! i))
      then vzero
      else smul (forces_normal_direction self rod ! j) (components (normal_plane self)))"
proof -
  define fnd where "fnd = forces_normal_direction self rod"
  define c where "c = map (\<lambda>f. f > 0) fnd"
  have len: "length fnd = length (position rod) - 1"
    using assms(1) by (simp add: fnd_def length_forces_normal_direction)
  have mem: "j \<in> set (concat (np_where (ndim (normal_plane self)) c)) \<longleftrightarrow>
      0 < fnd ! j \<or> (j = 0 \<and> (\<exists>i < length (position rod) - 1. 0 < fnd ! i))"
    unfolding set_concat_np_where[OF assms(3)] using assms(2) len by (auto simp: c_def)
  have "forces_normal self rod ! j =
      (if j \<in> set (concat (np_where (ndim (normal_plane self)) c)) then vzero
       else np_outer (normal_plane self) fnd ! j)"
    using assms(2) len
    by (simp add: forces_normal_def zero_columns_nth np_outer_def fnd_def c_def)
  also have "np_outer (normal_plane self) fnd ! j = smul (fnd ! j) (components (normal_plane self))"
    using assms(2) len by (simp add: np_outer_def outer_column_smul)
  finally show ?thesis
    unfolding mem fnd_def .
qed

lemma normal_force_plane_Inr:
  assumes "normal_force_plane self rod = Inr normal_force"
  shows "ndim (normal_plane self) \<noteq> 1"
    and "normal_force = zero_columns (map vneg (forces_normal self rod))
           (filter (\<lambda>j. surface_tol self < distance_from_plane self rod ! j)
              [0..<length (position rod) - 1])"
proof -
  from assms obtain cols where
    cols: "getitem (no_contact_pts self rod) 1 = Inr cols"
    and nf: "normal_force = zero_columns (map vneg (forces_normal self rod)) cols"
    by (auto simp: normal_force_plane_def then_do_def split: sum.splits)
  from np_where_cols[OF cols[unfolded no_contact_pts_def]]
  show "ndim (normal_plane self) \<noteq> 1" by simp
  from np_where_cols[OF cols[unfolded no_contact_pts_def]]
  have "cols = filter (\<lambda>j. surface_tol self < distance_from_plane self rod ! j)
              [0..<length (position rod) - 1]"
    by (auto simp: length_distance_from_plane intro: filter_cong)
  with nf show "normal_force = zero_columns (map vneg (forces_normal self rod))
           (filter (\<lambda>j. surface_tol self < distance_from_plane self rod ! j)
              [0..<length (position rod) - 1])" by simp
qed

lemma normal_force_plane_nth:
  assumes "normal_force_plane self rod = Inr normal_force" "shapes_agree rod"
    "j < length (position rod) - 1"
  shows "normal_force ! j =
     (if surface_tol self < distance_from_plane self rod ! j then vzero
      else vneg (forces_normal self rod ! j))"
  using assms normal_force_plane_Inr[OF assms(1)]
  by (simp add: zero_columns_nth length_forces_normal)

lemma length_normal_force_plane:
  assumes "normal_force_plane self rod = Inr normal_force" "shapes_agree rod"
  shows "length normal_force = length (position rod) - 1"
  using assms normal_force_plane_Inr[OF assms(1)]
  by (simp add: length_zero_columns length_forces_normal)

lemma normal_force_plane_multiple:
  assumes "normal_force_plane self rod = Inr normal_force" "shapes_agree rod"
    "j < length (position rod) - 1"
  shows "normal_force ! j = vzero \<or>
     (forces_normal_direction self rod ! j \<le> 0 \<and>
      normal_force ! j =
        smul (- forces_normal_direction self rod ! j) (components (normal_plane self)))"
proof -
  note nf = normal_force_plane_nth[OF assms]
  note fn = forces_normal_nth[OF assms(2,3) normal_force_plane_Inr(1)[OF assms(1)]]
  show ?thesis
  proof (cases "forces_normal self rod ! j = vzero")
    case True
    then have "normal_force ! j = vzero" using nf by (simp add: vzero_def)
    then show ?thesis ..
  next
    case False
    with fn have le: "forces_normal_direction self rod ! j \<le> 0"
      and eq: "forces_normal self rod ! j =
        smul (forces_normal_direction self rod ! j) (components (normal_plane self))"
      by (auto split: if_splits)
    show ?thesis
    proof (cases "surface_tol self < distance_from_plane self rod ! j")
      case True
      then show ?thesis using nf by simp
    next
      case False
      then have "normal_force ! j = vneg (forces_normal self rod ! j)" using nf by simp
      with eq le show ?thesis by (simp add: vneg_smul)
    qed
  qed
qed

lemma apply_normal_force_Inr:
  assumes "apply_normal_force self rod = Inr (normal_force, rod')"
  shows "shapes_agree rod"
    and "normal_force_plane self rod = Inr normal_force"
    and "rod' = rod\<lparr>external_forces :=
            add_to_back (add_to_front (external_forces rod)
               (map (smul (1 / 2)) (total_force_plane self rod normal_force)))
               (map (smul (1 / 2)) (total_force_plane self rod normal_force))\<rparr>"
  using assms
  by (auto simp: apply_normal_force_def then_do_def Let_def split: if_splits sum.splits)

lemma length_total_force_plane:
  assumes "normal_force_plane self rod = Inr normal_force" "shapes_agree rod"
  shows "length (total_force_plane self rod normal_force) = length (position rod) - 1"
  using assms
  by (simp add: total_force_plane_def length_normal_force_plane length_elastic_force
      length_damping_force)

lemma total_force_plane_nth:
  assumes "normal_force_plane self rod = Inr normal_force" "shapes_agree rod"
    "j < length (position rod) - 1"
  shows "total_force_plane self rod normal_force ! j =
     vadd (vadd (normal_force ! j) (elastic_force self rod ! j)) (damping_force self rod ! j)"
  using assms
  by (simp add: total_force_plane_def length_normal_force_plane length_elastic_force
      length_damping_force)

lemma apply_normal_force_returns:
  "(\<exists>res. apply_normal_force self rod = Inr res) \<longleftrightarrow>
     shapes_agree rod \<and> ndim (normal_plane self) = 2"
  by (cases "normal_plane self")
    (auto simp: apply_normal_force_def then_do_def normal_force_plane_def no_contact_pts_def
      np_where_def getitem_def Let_def)

lemma apply_normal_force_shape_mismatch:
  "\<not> shapes_agree rod \<Longrightarrow> apply_normal_force self rod = Inl ValueError"
  by (simp add: apply_normal_force_def)

lemma apply_normal_force_flat_normal:
  "shapes_agree rod \<Longrightarrow> ndim (normal_plane self) = 1 \<Longrightarrow>
     apply_normal_force self rod = Inl IndexError"
  by (simp add: apply_normal_force_def then_do_def normal_force_plane_def no_contact_pts_def
      np_where_def getitem_def Let_def)

lemmas normal_force_eval =
  apply_normal_force_def normal_force_plane_def total_force_plane_def no_contact_pts_def
  forces_normal_def forces_normal_direction_def distance_from_plane_def plane_penetration_def
  elastic_force_def damping_force_def node_to_element_def matmul_def np_outer_def
  zero_columns_def add_to_front_def add_to_back_def np_where_def getitem_def
  then_do_def shapes_agree_def InteractionPlane_init_def vzero_def Let_def upt_conv_Cons

lemma apply_normal_force_nodes:
  assumes ret: "apply_normal_force self rod = Inr (normal_force, rod')"
  shows "length (external_forces rod') = length (position rod)"
    and "i < length (position rod) \<Longrightarrow>
       external_forces rod' ! i =
         vadd (vadd (external_forces rod ! i)
                 (if i < length (position rod) - 1
                  then smul (1 / 2) (total_force_plane self rod normal_force ! i)
                  else vzero))
              (if 0 < i
               then smul (1 / 2) (total_force_plane self rod normal_force ! (i - 1))
               else vzero)"
proof -
  define total where "total = total_force_plane self rod normal_force"
  define half where "half = map (smul (1 / 2)) total"
  note ok = apply_normal_force_Inr(1)[OF ret]
  note nf = apply_normal_force_Inr(2)[OF ret]
  have rod': "external_forces rod' =
      add_to_back (add_to_front (external_forces rod) half) half"
    using apply_normal_force_Inr(3)[OF ret] by (simp add: half_def total_def)
  have len_total: "length total = length (position rod) - 1"
    unfolding total_def by (rule length_total_force_plane[OF nf ok])
  have len_ext: "length (external_forces rod) = length (position rod)"
    using ok by (simp add: shapes_agree_def)
  have len_half: "length half = length (external_forces rod) - 1"
    by (simp add: half_def len_total len_ext)
  have len_front: "length (add_to_front (external_forces rod) half) = length (position rod)"
    using length_add_to_front[OF len_half] len_ext by simp
  show "length (external_forces rod') = length (position rod)"
    unfolding rod' using length_add_to_back[of half "add_to_front (external_forces rod) half"]
      len_front len_half len_ext by simp
  show "external_forces rod' ! i =
         vadd (vadd (external_forces rod ! i)
                 (if i < length (position rod) - 1
                  then smul (1 / 2) (total_force_plane self rod normal_force ! i)
                  else vzero))
              (if 0 < i
               then smul (1 / 2) (total_force_plane self rod normal_force ! (i - 1))
               else vzero)"
    if i: "i < length (position rod)"
  proof -
    have at_front: "add_to_front (external_forces rod) half ! i =
        (if i < length half then vadd (external_forces rod ! i) (half ! i)
         else external_forces rod ! i)"
      using i len_ext by (intro add_to_front_nth[OF len_half]) simp
    have at_back: "external_forces rod' ! i =
        (if 0 < i then vadd (add_to_front (external_forces rod) half ! i) (half ! (i - 1))
         else add_to_front (external_forces rod) half ! i)"
      unfolding rod' using i len_front len_half len_ext
      by (intro add_to_back_nth) simp_all
    have h1: "half ! i = smul (1 / 2) (total ! i)" if "i < length (position rod) - 1"
      using that len_total by (simp add: half_def)
    have h2: "half ! (i - 1) = smul (1 / 2) (total ! (i - 1))" if "0 < i"
      using that i len_total by (simp add: half_def)
    show ?thesis
      using at_front at_back h1 h2 len_half len_ext by (auto simp: vadd_vzero total_def)
  qed
qed

lemma vadd_assoc_smul:
  "vadd (vadd e (smul x v)) (smul y v) = vadd e (smul (x + y) v)"
  by (cases e; cases v) (simp add: algebra_simps)

lemma apply_normal_force_terms_multiple:
  assumes nf: "normal_force_plane self rod = Inr normal_force" and ok: "shapes_agree rod"
    and j: "j < length (position rod) - 1"
  shows "\<exists>a b c. normal_force ! j = smul a (components (normal_plane self)) \<and>
       elastic_force self rod ! j = smul b (components (normal_plane self)) \<and>
       damping_force self rod ! j = smul c (components (normal_plane self)) \<and>
       total_force_plane self rod normal_force ! j =
         smul (a + b + c) (components (normal_plane self))"
proof -
  obtain a where a: "normal_force ! j = smul a (components (normal_plane self))"
    using normal_force_plane_multiple[OF nf ok j] vzero_smul[of "components (normal_plane self)"]
    by metis
  note b = elastic_force_nth[OF ok j, of self]
  note c = damping_force_nth[OF ok j, of self]
  have "total_force_plane self rod normal_force ! j =
      smul (a + (- k self * plane_penetration self rod ! j)
            + (- nu self * vdot (components (normal_plane self))
                               (node_to_element (velocity rod) ! j)))
        (components (normal_plane self))"
    unfolding total_force_plane_nth[OF nf ok j] a b c by (simp only: vadd_smul)
  with a b c show ?thesis by blast
qed

text \<open>
  Claim C4, as amended. Whenever apply_normal_force returns, for every element whose
  midpoint distance from the plane exceeds the surface tolerance the returned vector is
  exactly zero, while the force accumulated for that element is the sum of its elastic
  and its damping term: the rod's external force at the element's first node has grown
  by one half of that sum (and by the half of the preceding element, if there is one),
  and at its second node by one half of that sum (and by the half of the following
  element, if there is one).
\<close>

theorem apply_normal_force_no_contact:
  assumes ret: "apply_normal_force self rod = Inr (normal_force, rod')"
    and j: "j < length (position rod) - 1"
    and far: "surface_tol self < distance_from_plane self rod ! j"
  shows "normal_force ! j = vzero \<and>
    total_force_plane self rod normal_force ! j =
      vadd (elastic_force self rod ! j) (damping_force self rod ! j) \<and>
    external_forces rod' ! j =
      vadd (vadd (external_forces rod ! j)
              (smul (1 / 2) (vadd (elastic_force self rod ! j) (damping_force self rod ! j))))
           (if 0 < j
            then smul (1 / 2) (total_force_plane self rod normal_force ! (j - 1))
            else vzero) \<and>
    external_forces rod' ! Suc j =
      vadd (vadd (external_forces rod ! Suc j)
              (if Suc j < length (position rod) - 1
               then smul (1 / 2) (total_force_plane self rod normal_force ! Suc j)
               else vzero))
           (smul (1 / 2) (vadd (elastic_force self rod ! j) (damping_force self rod ! j)))"
proof -
  note ok = apply_normal_force_Inr(1)[OF ret]
  note nf = apply_normal_force_Inr(2)[OF ret]
  have zero: "normal_force ! j = vzero"
    using normal_force_plane_nth[OF nf ok j] far by simp
  have total: "total_force_plane self rod normal_force ! j =
      vadd (elastic_force self rod ! j) (damping_force self rod ! j)"
    using total_force_plane_nth[OF nf ok j] zero by (simp add: vadd_vzero)
  from j have first: "j < length (position rod)" and second: "Suc j < length (position rod)"
    by simp_all
  have node1: "external_forces rod' ! j =
      vadd (vadd (external_forces rod ! j)
              (smul (1 / 2) (vadd (elastic_force self rod ! j) (damping_force self rod ! j))))
           (if 0 < j
            then smul (1 / 2) (total_force_plane self rod normal_force ! (j - 1))
            else vzero)"
    using apply_normal_force_nodes(2)[OF ret first] j total by simp
  have node2: "external_forces rod' ! Suc j =
      vadd (vadd (external_forces rod ! Suc j)
              (if Suc j < length (position rod) - 1
               then smul (1 / 2) (total_force_plane self rod normal_force ! Suc j)
               else vzero))
           (smul (1 / 2) (vadd (elastic_force self rod ! j) (damping_force self rod ! j)))"
    using apply_normal_force_nodes(2)[OF ret second] total by simp
  from zero total node1 node2 show ?thesis by simp
qed

theorem apply_normal_force_no_contact_witness:
  "apply_normal_force damping_plane rising_rod =
     Inr ([(0, 0, 0)],
          rising_rod\<lparr>external_forces := [(0, - (1 / 2), 0), (0, - (1 / 2), 0)]\<rparr>) \<and>
   (0::nat) < length (position rising_rod) - 1 \<and>
   surface_tol damping_plane < distance_from_plane damping_plane rising_rod ! 0 \<and>
   [(0, 0, 0)] ! 0 = vzero \<and>
   total_force_plane damping_plane rising_rod [(0, 0, 0)] ! 0 =
     vadd (elastic_force damping_plane rising_rod ! 0)
          (damping_force damping_plane rising_rod ! 0) \<and>
   [(0, - (1 / 2), 0), (0, - (1 / 2), 0)] ! 0 =
     vadd (vadd (external_forces rising_rod ! 0)
             (smul (1 / 2) (vadd (elastic_force damping_plane rising_rod ! 0)
                                 (damping_force damping_plane rising_rod ! 0))))
          vzero \<and>
   [(0, - (1 / 2), 0), (0, - (1 / 2), 0)] ! Suc 0 =
     vadd (vadd (external_forces rising_rod ! Suc 0) vzero)
          (smul (1 / 2) (vadd (elastic_force damping_plane rising_rod ! 0)
                              (damping_force damping_plane rising_rod ! 0)))"
proof -
  have h: "apply_normal_force damping_plane rising_rod =
     Inr ([(0, 0, 0)],
          rising_rod\<lparr>external_forces := [(0, - (1 / 2), 0), (0, - (1 / 2), 0)]\<rparr>)"
    by (simp add: normal_force_eval damping_plane_def rising_rod_def)
  have j0: "(0::nat) < length (position rising_rod) - 1"
    by (simp add: rising_rod_def)
  have n: "length (position rising_rod) = 2"
    by (simp add: rising_rod_def)
  have far: "surface_tol damping_plane < distance_from_plane damping_plane rising_rod ! 0"
    by (simp add: normal_force_eval damping_plane_def rising_rod_def)
  note c = apply_normal_force_no_contact[OF h j0 far]
  have zero: "[(0, 0, 0)] ! 0 = vzero"
    using c[THEN conjunct1] .
  have total: "total_force_plane damping_plane rising_rod [(0, 0, 0)] ! 0 =
     vadd (elastic_force damping_plane rising_rod ! 0)
          (damping_force damping_plane rising_rod ! 0)"
    using c[THEN conjunct2, THEN conjunct1] .
  have node1: "[(0, - (1 / 2), 0), (0, - (1 / 2), 0)] ! 0 =
     vadd (vadd (external_forces rising_rod ! 0)
             (smul (1 / 2) (vadd (elastic_force damping_plane rising_rod ! 0)
                                 (damping_force damping_plane rising_rod ! 0))))
          vzero"
    using c[THEN conjunct2, THEN conjunct2, THEN conjunct1] by simp
  have node2: "[(0, - (1 / 2), 0), (0, - (1 / 2), 0)] ! Suc 0 =
     vadd (vadd (external_forces rising_rod ! Suc 0) vzero)
          (smul (1 / 2) (vadd (elastic_force damping_plane rising_rod ! 0)
                              (damping_force damping_plane rising_rod ! 0)))"
    using c[THEN conjunct2, THEN conjunct2, THEN conjunct2] by (simp add: n)
  show ?thesis
    by (intro conjI h j0 far zero total node1 node2)
qed

text \<open>
  Claim C4, as stated, fails: the element of the rising rod is at distance 1 from the
  plane, above the surface tolerance, and the call adds the force \<open>(0, -1/2, 0)\<close> to
  each of its two nodes, which held \<open>(0, 0, 0)\<close> before.
\<close>

theorem apply_normal_force_no_contact_counterexample:
  "surface_tol damping_plane < distance_from_plane damping_plane rising_rod ! 0 \<and>
   external_forces rising_rod = [(0, 0, 0), (0, 0, 0)] \<and>
   apply_normal_force damping_plane rising_rod =
     Inr ([(0, 0, 0)],
          rising_rod\<lparr>external_forces := [(0, - (1 / 2), 0), (0, - (1 / 2), 0)]\<rparr>)"
  by (simp add: normal_force_eval damping_plane_def rising_rod_def)

text \<open>
  Claim C6. Whenever apply_normal_force returns, the returned array has one vector per
  element; for an element whose averaged net nodal force has a positive component along
  the normal, the returned vector is zero and the total contact force of the element
  consists of the elastic and the damping term only; and every returned vector has a
  non-negative component along the normal.
\<close>

theorem apply_normal_force_one_sided:
  assumes ret: "apply_normal_force self rod = Inr (normal_force, rod')"
    and j: "j < length (position rod) - 1"
  shows "length normal_force = length (position rod) - 1 \<and>
    (0 < forces_normal_direction self rod ! j \<longrightarrow>
       normal_force ! j = vzero \<and>
       total_force_plane self rod normal_force ! j =
         vadd (elastic_force self rod ! j) (damping_force self rod ! j)) \<and>
    0 \<le> vdot (components (normal_plane self)) (normal_force ! j)"
proof -
  note ok = apply_normal_force_Inr(1)[OF ret]
  note nf = apply_normal_force_Inr(2)[OF ret]
  have len: "length normal_force = length (position rod) - 1"
    by (rule length_normal_force_plane[OF nf ok])
  have zero: "normal_force ! j = vzero" if "0 < forces_normal_direction self rod ! j"
    using normal_force_plane_multiple[OF nf ok j] that by auto
  have total: "total_force_plane self rod normal_force ! j =
         vadd (elastic_force self rod ! j) (damping_force self rod ! j)"
    if "0 < forces_normal_direction self rod ! j"
    using total_force_plane_nth[OF nf ok j] zero[OF that] by (simp add: vadd_vzero)
  have "0 \<le> vdot (components (normal_plane self)) (normal_force ! j)"
    using normal_force_plane_multiple[OF nf ok j]
  proof
    assume "normal_force ! j = vzero"
    then show ?thesis by (simp add: vdot_vzero)
  next
    assume "forces_normal_direction self rod ! j \<le> 0 \<and>
      normal_force ! j =
        smul (- forces_normal_direction self rod ! j) (components (normal_plane self))"
    then show ?thesis
      using vdot_self_nonneg[of "components (normal_plane self)"]
      by (simp add: vdot_smul mult_nonneg_nonneg del: mult_minus_left)
  qed
  with len zero total show ?thesis by blast
qed

theorem apply_normal_force_one_sided_witness:
  "apply_normal_force stiff_plane lying_rod =
     Inr ([(0, 0, 0), (0, 2, 0)],
          lying_rod\<lparr>external_forces := [(0, 1 / 4, 0), (0, 3 / 2, 0), (0, 5 / 4, 0)]\<rparr>) \<and>
   (0::nat) < length (position lying_rod) - 1 \<and>
   0 < forces_normal_direction stiff_plane lying_rod ! 0 \<and>
   [(0, 0, 0), (0, 2, 0)] ! 0 = vzero \<and>
   0 \<le> vdot (components (normal_plane stiff_plane)) ([(0, 0, 0), (0, 2, 0)] ! 1)"
proof -
  have h: "apply_normal_force stiff_plane lying_rod =
     Inr ([(0, 0, 0), (0, 2, 0)],
          lying_rod\<lparr>external_forces := [(0, 1 / 4, 0), (0, 3 / 2, 0), (0, 5 / 4, 0)]\<rparr>)"
    by (simp add: normal_force_eval stiff_plane_def lying_rod_def)
  have j0: "(0::nat) < length (position lying_rod) - 1"
    and j1: "(1::nat) < length (position lying_rod) - 1"
    by (simp_all add: lying_rod_def)
  have pos: "0 < forces_normal_direction stiff_plane lying_rod ! 0"
    by (simp add: normal_force_eval stiff_plane_def lying_rod_def)
  show ?thesis
    using h j0 pos apply_normal_force_one_sided[OF h j0] apply_normal_force_one_sided[OF h j1]
    by simp
qed

text \<open>
  Claim C8, as amended. Whenever apply_normal_force returns, every node has received
  one half of the total contact force of each element it bounds, the two halves of an
  element add up to its total contact force, and the total contact force of an element
  is the sum of the returned vector, the elastic term and the damping term. The value
  returned is the array \<^verbatim>\<open>normal_force_plane\<close> of lines 46 and 47, not the total.
\<close>

theorem apply_normal_force_split:
  assumes ret: "apply_normal_force self rod = Inr (normal_force, rod')"
  shows "normal_force_plane self rod = Inr normal_force \<and>
    length (total_force_plane self rod normal_force) = length (position rod) - 1 \<and>
    length (external_forces rod') = length (position rod) \<and>
    length (external_forces rod) = length (position rod) \<and>
    (\<forall>j < length (position rod) - 1.
       vadd (smul (1 / 2) (total_force_plane self rod normal_force ! j))
            (smul (1 / 2) (total_force_plane self rod normal_force ! j))
         = total_force_plane self rod normal_force ! j \<and>
       total_force_plane self rod normal_force ! j =
         vadd (vadd (normal_force ! j) (elastic_force self rod ! j))
              (damping_force self rod ! j)) \<and>
    (\<forall>i < length (position rod).
       external_forces rod' ! i =
         vadd (vadd (external_forces rod ! i)
                 (if i < length (position rod) - 1
                  then smul (1 / 2) (total_force_plane self rod normal_force ! i)
                  else vzero))
              (if 0 < i
               then smul (1 / 2) (total_force_plane self rod normal_force ! (i - 1))
               else vzero))"
proof -
  note ok = apply_normal_force_Inr(1)[OF ret]
  note nf = apply_normal_force_Inr(2)[OF ret]
  have len_ext: "length (external_forces rod) = length (position rod)"
    using ok by (simp add: shapes_agree_def)
  have elements: "vadd (smul (1 / 2) (total_force_plane self rod normal_force ! j))
            (smul (1 / 2) (total_force_plane self rod normal_force ! j))
         = total_force_plane self rod normal_force ! j \<and>
       total_force_plane self rod normal_force ! j =
         vadd (vadd (normal_force ! j) (elastic_force self rod ! j))
              (damping_force self rod ! j)"
    if "j < length (position rod) - 1" for j
    using total_force_plane_nth[OF nf ok that] by (simp add: vadd_halves)
  show ?thesis
    using nf length_total_force_plane[OF nf ok] apply_normal_force_nodes[OF ret] len_ext
      elements
    by blast
qed

theorem apply_normal_force_split_witness:
  "apply_normal_force stiff_plane lying_rod =
     Inr ([(0, 0, 0), (0, 2, 0)],
          lying_rod\<lparr>external_forces := [(0, 1 / 4, 0), (0, 3 / 2, 0), (0, 5 / 4, 0)]\<rparr>) \<and>
   normal_force_plane stiff_plane lying_rod = Inr [(0, 0, 0), (0, 2, 0)] \<and>
   total_force_plane stiff_plane lying_rod [(0, 0, 0), (0, 2, 0)] ! 1 =
     vadd (vadd ([(0, 0, 0), (0, 2, 0)] ! 1) (elastic_force stiff_plane lying_rod ! 1))
          (damping_force stiff_plane lying_rod ! 1) \<and>
   [(0, 1 / 4, 0), (0, 3 / 2, 0), (0, 5 / 4, 0)] ! 1 =
     vadd (vadd (external_forces lying_rod ! 1)
             (smul (1 / 2) (total_force_plane stiff_plane lying_rod [(0, 0, 0), (0, 2, 0)] ! 1)))
          (smul (1 / 2) (total_force_plane stiff_plane lying_rod [(0, 0, 0), (0, 2, 0)] ! 0))"
proof -
  have h: "apply_normal_force stiff_plane lying_rod =
     Inr ([(0, 0, 0), (0, 2, 0)],
          lying_rod\<lparr>external_forces := [(0, 1 / 4, 0), (0, 3 / 2, 0), (0, 5 / 4, 0)]\<rparr>)"
    by (simp add: normal_force_eval stiff_plane_def lying_rod_def)
  have n: "length (position lying_rod) = 3"
    by (simp add: lying_rod_def)
  note c = apply_normal_force_split[OF h]
  note element = c[THEN conjunct2, THEN conjunct2, THEN conjunct2, THEN conjunct2,
      THEN conjunct1, rule_format, of 1]
  note node = c[THEN conjunct2, THEN conjunct2, THEN conjunct2, THEN conjunct2,
      THEN conjunct2, rule_format, of 1]
  show ?thesis
    using h c[THEN conjunct1] element node by (simp add: n)
qed

text \<open>
  Claim C8, as stated, fails: for the resting rod the call adds \<open>(0, 1/4, 0)\<close> to each
  of the two nodes of the element, a total of \<open>(0, 1/2, 0)\<close>, and returns the zero
  vector for the element.
\<close>

theorem apply_normal_force_return_counterexample:
  "external_forces resting_rod = [(0, 0, 0), (0, 0, 0)] \<and>
   apply_normal_force stiff_plane resting_rod =
     Inr ([(0, 0, 0)],
          resting_rod\<lparr>external_forces := [(0, 1 / 4, 0), (0, 1 / 4, 0)]\<rparr>) \<and>
   vadd (0, 1 / 4, 0) (0, 1 / 4, 0) \<noteq> (0, 0, 0)"
  by (simp add: normal_force_eval stiff_plane_def resting_rod_def)

text \<open>
  Claim C10. Whenever apply_normal_force returns, for every element the returned
  one-sided projected term, the elastic term, the damping term and their sum are scalar
  multiples of the plane normal, and every node's external force changes by a scalar
  multiple of the plane normal.
\<close>

theorem apply_normal_force_along_normal:
  assumes ret: "apply_normal_force self rod = Inr (normal_force, rod')"
  shows "(\<forall>j < length (position rod) - 1.
       \<exists>a b c. normal_force ! j = smul a (components (normal_plane self)) \<and>
         elastic_force self rod ! j = smul b (components (normal_plane self)) \<and>
         damping_force self rod ! j = smul c (components (normal_plane self)) \<and>
         total_force_plane self rod normal_force ! j =
           smul (a + b + c) (components (normal_plane self))) \<and>
    (\<forall>i < length (position rod).
       \<exists>d. external_forces rod' ! i =
         vadd (external_forces rod ! i) (smul d (components (normal_plane self))))"
proof -
  note ok = apply_normal_force_Inr(1)[OF ret]
  note nf = apply_normal_force_Inr(2)[OF ret]
  let ?n = "components (normal_plane self)"
  let ?total = "total_force_plane self rod normal_force"
  have total: "\<exists>t. ?total ! j = smul t ?n" if "j < length (position rod) - 1" for j
    using apply_normal_force_terms_multiple[OF nf ok that] by blast
  have node: "\<exists>d. external_forces rod' ! i = vadd (external_forces rod ! i) (smul d ?n)"
    if i: "i < length (position rod)" for i
  proof -
    have "\<exists>x. (if i < length (position rod) - 1 then smul (1 / 2) (?total ! i) else vzero)
        = smul x ?n"
    proof (cases "i < length (position rod) - 1")
      case True
      from total[OF True] obtain t where "?total ! i = smul t ?n" ..
      with True show ?thesis by (auto simp: smul_smul)
    next
      case False
      then show ?thesis using vzero_smul[of ?n] by auto
    qed
    then obtain x where x:
      "(if i < length (position rod) - 1 then smul (1 / 2) (?total ! i) else vzero) = smul x ?n" ..
    have "\<exists>y. (if 0 < i then smul (1 / 2) (?total ! (i - 1)) else vzero) = smul y ?n"
    proof (cases "0 < i")
      case True
      with i have "i - 1 < length (position rod) - 1" by simp
      from total[OF this] obtain t where "?total ! (i - 1) = smul t ?n" ..
      with True show ?thesis by (auto simp: smul_smul)
    next
      case False
      then show ?thesis using vzero_smul[of ?n] by auto
    qed
    then obtain y where y:
      "(if 0 < i then smul (1 / 2) (?total ! (i - 1)) else vzero) = smul y ?n" ..
    have "external_forces rod' ! i = vadd (external_forces rod ! i) (smul (x + y) ?n)"
      unfolding apply_normal_force_nodes(2)[OF ret i] x y by (rule vadd_assoc_smul)
    then show ?thesis ..
  qed
  show ?thesis
    using apply_normal_force_terms_multiple[OF nf ok] node by blast
qed

theorem apply_normal_force_along_normal_witness:
  "apply_normal_force stiff_plane lying_rod =
     Inr ([(0, 0, 0), (0, 2, 0)],
          lying_rod\<lparr>external_forces := [(0, 1 / 4, 0), (0, 3 / 2, 0), (0, 5 / 4, 0)]\<rparr>) \<and>
   (\<exists>a b c. [(0, 0, 0), (0, 2, 0)] ! 1 = smul a (components (normal_plane stiff_plane)) \<and>
      elastic_force stiff_plane lying_rod ! 1 = smul b (components (normal_plane stiff_plane)) \<and>
      damping_force stiff_plane lying_rod ! 1 = smul c (components (normal_plane stiff_plane)) \<and>
      total_force_plane stiff_plane lying_rod [(0, 0, 0), (0, 2, 0)] ! 1 =
        smul (a + b + c) (components (normal_plane stiff_plane))) \<and>
   (\<exists>d. [(0, 1 / 4, 0), (0, 3 / 2, 0), (0, 5 / 4, 0)] ! 1 =
      vadd (external_forces lying_rod ! 1) (smul d (components (normal_plane stiff_plane))))"
proof -
  have h: "apply_normal_force stiff_plane lying_rod =
     Inr ([(0, 0, 0), (0, 2, 0)],
          lying_rod\<lparr>external_forces := [(0, 1 / 4, 0), (0, 3 / 2, 0), (0, 5 / 4, 0)]\<rparr>)"
    by (simp add: normal_force_eval stiff_plane_def lying_rod_def)
  have n: "length (position lying_rod) = 3"
    by (simp add: lying_rod_def)
  note c = apply_normal_force_along_normal[OF h]
  note element = c[THEN conjunct1, rule_format, of 1]
  note node = c[THEN conjunct2, rule_format, of 1]
  show ?thesis
    using h element node by (simp add: n)
qed

text \<open>
  Claim C9. The base constructor sets the surface tolerance to \<open>1e-4\<close> for all its
  arguments, and so does the constructor of the frictional plane whenever it returns:
  no argument of either constructor reaches \<^verbatim>\<open>surface_tol\<close>.
\<close>

theorem surface_tol_fixed:
  assumes "AnistropicFrictionalPlane_init k' nu' origin_plane' normal_plane'
             slip_velocity_tol' static_mu_array kinetic_mu_array = Inr self"
  shows "surface_tol (InteractionPlane_init k' nu' origin_plane' normal_plane') = 1 / 10000 \<and>
    surface_tol self = 1 / 10000"
  using assms
  by (auto simp: AnistropicFrictionalPlane_init_def InteractionPlane_init_def then_do_def
      Let_def InteractionPlane.extend_def split: sum.splits)

theorem surface_tol_fixed_witness:
  "AnistropicFrictionalPlane_init 100 5 (0, 0, 0) (Shape_3 (0, 1, 0)) (1 / 1000)
      [1, 2, 3] [4, 5, 6] =
     Inr \<lparr>k = 100, nu = 5, origin_plane = (0, 0, 0), normal_plane = Shape_3 (0, 1, 0),
          surface_tol = 1 / 10000, slip_velocity_tol = 1 / 1000,
          static_mu_forward = 1, static_mu_backward = 2, static_mu_sideways = 3,
          kinetic_mu_forward = 4, kinetic_mu_backward = 5, kinetic_mu_sideways = 6\<rparr> \<and>
   surface_tol (InteractionPlane_init 100 5 (0, 0, 0) (Shape_3 (0, 1, 0))) = 1 / 10000 \<and>
   surface_tol \<lparr>k = 100, nu = 5, origin_plane = (0, 0, 0), normal_plane = Shape_3 (0, 1, 0),
          surface_tol = 1 / 10000, slip_velocity_tol = 1 / 1000,
          static_mu_forward = 1, static_mu_backward = 2, static_mu_sideways = 3,
          kinetic_mu_forward = 4, kinetic_mu_backward = 5, kinetic_mu_sideways = 6\<rparr>
     = 1 / 10000"
proof -
  have h: "AnistropicFrictionalPlane_init 100 5 (0, 0, 0) (Shape_3 (0, 1, 0)) (1 / 1000)
      [1, 2, 3] [4, 5, 6] =
     Inr \<lparr>k = 100, nu = 5, origin_plane = (0, 0, 0), normal_plane = Shape_3 (0, 1, 0),
          surface_tol = 1 / 10000, slip_velocity_tol = 1 / 1000,
          static_mu_forward = 1, static_mu_backward = 2, static_mu_sideways = 3,
          kinetic_mu_forward = 4, kinetic_mu_backward = 5, kinetic_mu_sideways = 6\<rparr>"
    by (simp add: AnistropicFrictionalPlane_init_def InteractionPlane_init_def then_do_def
        getitem_def Let_def InteractionPlane.extend_def
        AnistropicFrictionalPlane.fields_def)
  show ?thesis
    using h surface_tol_fixed[OF h] by simp
qed

section \<open>Properties of kinetic friction\<close>

text \<open>
  Claim C2 (the code departs from it). Line 80 takes the square root of the dot product
  of element velocity and tangent: for operands with three axes, a dot product of 4
  gives the slip velocity 2 and a dot product of -1 gives NaN; for the rod's arrays,
  which have two axes, the line raises ValueError. The sign of the slip velocity is
  never -1.
\<close>

theorem axial_slip_velocity_square_root:
  "vdot (4, 0, 0) (1, 0, 0) = 4 \<and>
   axial_slip_velocity 3 [(4, 0, 0)] [(1, 0, 0)] = Inr [Some 2] \<and>
   vdot (- 1, 0, 0) (1, 0, 0) = - 1 \<and>
   axial_slip_velocity 3 [(- 1, 0, 0)] [(1, 0, 0)] = Inr [None] \<and>
   axial_slip_velocity 2 [(- 1, 0, 0)] [(1, 0, 0)] = Inl ValueError \<and>
   np_sign (np_sqrt x) \<noteq> Some (- 1)"
  by (simp add: axial_slip_velocity_def np_einsum_ijk_ijk_jk_def then_do_def np_sqrt_def
      np_sign_def sgn_real_def)

text \<open>
  Claim C3 (the code departs from it). The call raises TypeError for every plane and
  every rod: line 73 passes \<^verbatim>\<open>self\<close> twice to \<^verbatim>\<open>apply_normal_force\<close>.
\<close>

theorem apply_kinetic_friction_raises:
  "apply_kinetic_friction self rod = Inl TypeError"
  by (simp add: apply_kinetic_friction_def bound_method_call_def then_do_def)

text \<open>
  Claim C5 (the code departs from it). For the sliding rod, whose element slips against
  its tangent with a speed of twice the tolerance of the friction plane (kinetic forward
  coefficient 1/2), the call raises TypeError on line 73 and returns no rod: no axial
  friction force is computed or added. Each later step towards that force raises as
  well: line 80 raises ValueError on the rod's arrays, and line 85 raises TypeError
  because line 84 binds \<^verbatim>\<open>slip_function\<close> to a tuple instead of the regularization factor.
\<close>

theorem apply_kinetic_friction_twice_tolerance_raises:
  "node_to_element (velocity sliding_rod) = [(- (2 * slip_velocity_tol friction_plane), 0, 0)] \<and>
   tangents sliding_rod = [(1, 0, 0)] \<and>
   kinetic_mu_forward friction_plane = 1 / 2 \<and>
   apply_kinetic_friction friction_plane sliding_rod = Inl TypeError \<and>
   axial_slip_velocity 2 (node_to_element (velocity sliding_rod)) (tangents sliding_rod)
     = Inl ValueError \<and>
   (float_minus_tuple 1 ([Some (1 / 2 :: real)], slip_velocity_tol friction_plane)
      :: error + rod) = Inl TypeError"
  by (simp add: apply_kinetic_friction_def bound_method_call_def then_do_def
      axial_slip_velocity_def np_einsum_ijk_ijk_jk_def float_minus_tuple_def
      node_to_element_def sliding_rod_def friction_plane_def)

end
